theory Spec2Isabelle
  imports Main
begin

section \<open>Python values\<close>

text \<open>
  The module \<^verbatim>\<open>zep_python/memory/models.py\<close> declares six record classes on top of
  pydantic's \<^verbatim>\<open>BaseModel\<close>.  Field values of type \<^verbatim>\<open>Any\<close> and the results of
  \<^verbatim>\<open>dict()\<close> are values of the following universe: \<^verbatim>\<open>None\<close>, booleans, unbounded
  integers, strings, lists, and dictionaries with string keys.  A dictionary is an
  association list in insertion order.  Floats occur only as the fields
  \<^verbatim>\<open>mmr_lambda\<close> and \<^verbatim>\<open>dist\<close>, which this module stores and never computes with;
  their type is left opaque.
\<close>

datatype pyval =
    PNone
  | PBool bool
  | PInt int
  | PStr string
  | PList "pyval list"
  | PDict "(string \<times> pyval) list"

type_synonym pydict = "(string \<times> pyval) list"

typedecl pyfloat

text \<open>
  Exceptions.  A \<^verbatim>\<open>ValidationError\<close> carries one entry per offending field: the
  field's name (its \<^verbatim>\<open>loc\<close>) and the message.  An \<^verbatim>\<open>AttributeError\<close> names the
  class and the attribute that was looked up.
\<close>

datatype error =
    ValidationError "(string \<times> string) list"
  | AttributeError string string

text \<open>Injections of typed field values into the universe, as \<^verbatim>\<open>dict()\<close> returns them.\<close>

definition opt :: "('a \<Rightarrow> pyval) \<Rightarrow> 'a option \<Rightarrow> pyval" where
  "opt f x = (case x of None \<Rightarrow> PNone | Some v \<Rightarrow> f v)"

text \<open>
  Python's \<^verbatim>\<open>==\<close> on the universe.  \<^verbatim>\<open>bool\<close> is a subclass of \<^verbatim>\<open>int\<close>, so
  \<^verbatim>\<open>True == 1\<close>.  Lists are equal when they have the same length and equal
  elements in order; dictionaries when they have the same number of keys and every
  key of the left one is bound on the right to an equal value, whatever the order.
\<close>

fun py_eq :: "pyval \<Rightarrow> pyval \<Rightarrow> bool" where
  "py_eq PNone PNone = True"
| "py_eq (PBool a) (PBool b) = (a = b)"
| "py_eq (PBool a) (PInt n) = ((if a then 1 else 0) = n)"
| "py_eq (PInt n) (PBool a) = (n = (if a then 1 else 0))"
| "py_eq (PInt m) (PInt n) = (m = n)"
| "py_eq (PStr s) (PStr t) = (s = t)"
| "py_eq (PList xs) (PList ys) = list_all2 py_eq xs ys"
| "py_eq (PDict a) (PDict b) =
     (length a = length b \<and>
      list_all (\<lambda>(k, v). case map_of b k of None \<Rightarrow> False | Some w \<Rightarrow> py_eq v w) a)"
| "py_eq _ _ = False"

text \<open>A well-formed value: no dictionary inside it has a repeated key.\<close>

fun wf_pyval :: "pyval \<Rightarrow> bool" where
  "wf_pyval (PList xs) = list_all wf_pyval xs"
| "wf_pyval (PDict a) = (distinct (map fst a) \<and> list_all (\<lambda>(k, v). wf_pyval v) a)"
| "wf_pyval _ = True"

section \<open>The enumeration\<close>

datatype SearchScope = SearchScope_messages | SearchScope_summary

fun SearchScope_value :: "SearchScope \<Rightarrow> string" where
  "SearchScope_value SearchScope_messages = ''messages''"
| "SearchScope_value SearchScope_summary = ''summary''"

section \<open>The record classes\<close>

text \<open>
  Each class is a record of its declared fields, in the order of declaration.  The
  field \<^verbatim>\<open>id\<close> of \<^verbatim>\<open>Session\<close> is written \<open>id'\<close>.  \<^verbatim>\<open>Summary.token_count\<close> is
  declared \<^verbatim>\<open>int\<close> with a string as its default; pydantic does not validate
  defaults, so the field holds either, and is a \<^typ>\<open>pyval\<close>.
\<close>

record Session =
  uuid :: "string option"
  id' :: "int option"
  created_at :: "string option"
  updated_at :: "string option"
  deleted_at :: "string option"
  session_id :: string
  user_id :: "string option"
  metadata :: "pydict option"

record Summary =
  uuid :: string
  created_at :: string
  content :: string
  recent_message_uuid :: string
  token_count :: pyval

record Message =
  role :: string
  content :: string
  uuid :: "string option"
  created_at :: "string option"
  token_count :: "int option"
  metadata :: "pydict option"

record Memory =
  messages :: "Message list"
  metadata :: "pydict option"
  summary :: "Summary option"
  uuid :: "string option"
  created_at :: "string option"
  token_count :: "int option"

record MemorySearchPayload =
  text_field :: "string option"
  metadata :: "pydict option"
  search_scope :: "string option"
  search_type :: "string option"
  mmr_lambda :: "pyfloat option"

record MemorySearchResult =
  message :: "pydict option"
  summary :: "Summary option"
  metadata :: "pydict option"
  dist :: "pyfloat option"

section \<open>Construction\<close>

text \<open>
  A constructor takes one argument per declared field, in the order of declaration:
  \<open>None\<close> when the keyword is omitted, \<open>Some v\<close> when it is given, with \<open>v\<close> of the
  declared type (for an \<^verbatim>\<open>Optional[T]\<close> field \<open>v\<close> is itself an option, \<open>None\<close>
  being Python's \<^verbatim>\<open>None\<close>).  pydantic's coercion of values of other types is
  outside this model.

  pydantic's \<^verbatim>\<open>validate_model\<close> visits the fields in order.  For an omitted field
  it records the error \<^verbatim>\<open>field required\<close> when the field has no default, and
  otherwise takes the default without validating it; \<open>field_value\<close> is that step
  (\<open>dflt = None\<close> for a field without default).  \<open>ap\<close> adds one field to the
  instance under construction, collecting the errors of all fields, which
  \<open>model_result\<close> raises together as one \<^verbatim>\<open>ValidationError\<close>.
\<close>

definition field_value :: "string \<Rightarrow> 'a option \<Rightarrow> 'a option \<Rightarrow> (string \<times> string) list + 'a" where
  "field_value name dflt supplied =
     (case supplied of
        Some v \<Rightarrow> Inr v
      | None \<Rightarrow> (case dflt of
                  None \<Rightarrow> Inl [(name, ''field required'')]
                | Some d \<Rightarrow> Inr d))"

definition ap ::
  "(string \<times> string) list + ('a \<Rightarrow> 'b) \<Rightarrow> (string \<times> string) list + 'a \<Rightarrow>
   (string \<times> string) list + 'b" where
  "ap f x =
     (case f of
        Inl es \<Rightarrow> (case x of Inl es' \<Rightarrow> Inl (es @ es') | Inr _ \<Rightarrow> Inl es)
      | Inr g \<Rightarrow> (case x of Inl es' \<Rightarrow> Inl es' | Inr v \<Rightarrow> Inr (g v)))"

definition model_result :: "(string \<times> string) list + 'a \<Rightarrow> error + 'a" where
  "model_result r = (case r of Inl es \<Rightarrow> Inl (ValidationError es) | Inr m \<Rightarrow> Inr m)"

definition Session_new ::
  "string option option \<Rightarrow> int option option \<Rightarrow> string option option \<Rightarrow>
   string option option \<Rightarrow> string option option \<Rightarrow> string option \<Rightarrow>
   string option option \<Rightarrow> pydict option option \<Rightarrow> error + Session" where
  "Session_new a_uuid a_id a_created_at a_updated_at a_deleted_at a_session_id a_user_id a_metadata =
     model_result
       (ap (ap (ap (ap (ap (ap (ap (ap
          (Inr (\<lambda>v1 v2 v3 v4 v5 v6 v7 v8.
                 \<lparr>Session.uuid = v1, id' = v2, Session.created_at = v3, updated_at = v4,
                  deleted_at = v5, session_id = v6, user_id = v7, Session.metadata = v8\<rparr>))
          (field_value ''uuid'' (Some None) a_uuid))
          (field_value ''id'' (Some None) a_id))
          (field_value ''created_at'' (Some None) a_created_at))
          (field_value ''updated_at'' (Some None) a_updated_at))
          (field_value ''deleted_at'' (Some None) a_deleted_at))
          (field_value ''session_id'' None a_session_id))
          (field_value ''user_id'' (Some None) a_user_id))
          (field_value ''metadata'' (Some None) a_metadata))"

definition Summary_new ::
  "string option \<Rightarrow> string option \<Rightarrow> string option \<Rightarrow> string option \<Rightarrow> int option \<Rightarrow>
   error + Summary" where
  "Summary_new a_uuid a_created_at a_content a_recent_message_uuid a_token_count =
     model_result
       (ap (ap (ap (ap (ap
          (Inr (\<lambda>v1 v2 v3 v4 v5.
                 \<lparr>Summary.uuid = v1, Summary.created_at = v2, Summary.content = v3,
                  recent_message_uuid = v4, Summary.token_count = v5\<rparr>))
          (field_value ''uuid'' (Some ''A uuid is required'') a_uuid))
          (field_value ''created_at'' (Some ''A created_at is required'') a_created_at))
          (field_value ''content'' (Some ''Content is required'') a_content))
          (field_value ''recent_message_uuid'' (Some ''A recent_message_uuid is required'')
             a_recent_message_uuid))
          (field_value ''token_count'' (Some (PStr ''A token_count is required''))
             (map_option PInt a_token_count)))"

definition Message_new ::
  "string option \<Rightarrow> string option \<Rightarrow> string option option \<Rightarrow> string option option \<Rightarrow>
   int option option \<Rightarrow> pydict option option \<Rightarrow> error + Message" where
  "Message_new a_role a_content a_uuid a_created_at a_token_count a_metadata =
     model_result
       (ap (ap (ap (ap (ap (ap
          (Inr (\<lambda>v1 v2 v3 v4 v5 v6.
                 \<lparr>role = v1, Message.content = v2, Message.uuid = v3, Message.created_at = v4,
                  Message.token_count = v5, Message.metadata = v6\<rparr>))
          (field_value ''role'' (Some ''A role is required'') a_role))
          (field_value ''content'' (Some ''Content is required'') a_content))
          (field_value ''uuid'' (Some None) a_uuid))
          (field_value ''created_at'' (Some None) a_created_at))
          (field_value ''token_count'' (Some None) a_token_count))
          (field_value ''metadata'' (Some None) a_metadata))"

definition Memory_new ::
  "Message list option \<Rightarrow> pydict option option \<Rightarrow> Summary option option \<Rightarrow>
   string option option \<Rightarrow> string option option \<Rightarrow> int option option \<Rightarrow> error + Memory" where
  "Memory_new a_messages a_metadata a_summary a_uuid a_created_at a_token_count =
     model_result
       (ap (ap (ap (ap (ap (ap
          (Inr (\<lambda>v1 v2 v3 v4 v5 v6.
                 \<lparr>messages = v1, Memory.metadata = v2, Memory.summary = v3, Memory.uuid = v4,
                  Memory.created_at = v5, Memory.token_count = v6\<rparr>))
          (field_value ''messages'' (Some []) a_messages))
          (field_value ''metadata'' (Some None) a_metadata))
          (field_value ''summary'' (Some None) a_summary))
          (field_value ''uuid'' (Some None) a_uuid))
          (field_value ''created_at'' (Some None) a_created_at))
          (field_value ''token_count'' (Some None) a_token_count))"

definition MemorySearchPayload_new ::
  "string option option \<Rightarrow> pydict option option \<Rightarrow> string option option \<Rightarrow>
   string option option \<Rightarrow> pyfloat option option \<Rightarrow> error + MemorySearchPayload" where
  "MemorySearchPayload_new a_text a_metadata a_search_scope a_search_type a_mmr_lambda =
     model_result
       (ap (ap (ap (ap (ap
          (Inr (\<lambda>v1 v2 v3 v4 v5.
                 \<lparr>text_field = v1, MemorySearchPayload.metadata = v2, search_scope = v3,
                  search_type = v4, mmr_lambda = v5\<rparr>))
          (field_value ''text'' (Some None) a_text))
          (field_value ''metadata'' (Some None) a_metadata))
          (field_value ''search_scope'' (Some (Some ''messages'')) a_search_scope))
          (field_value ''search_type'' (Some (Some ''similarity'')) a_search_type))
          (field_value ''mmr_lambda'' (Some None) a_mmr_lambda))"

definition MemorySearchResult_new ::
  "pydict option option \<Rightarrow> Summary option option \<Rightarrow> pydict option option \<Rightarrow>
   pyfloat option option \<Rightarrow> error + MemorySearchResult" where
  "MemorySearchResult_new a_message a_summary a_metadata a_dist =
     model_result
       (ap (ap (ap (ap
          (Inr (\<lambda>v1 v2 v3 v4.
                 \<lparr>message = v1, MemorySearchResult.summary = v2,
                  MemorySearchResult.metadata = v3, dist = v4\<rparr>))
          (field_value ''message'' (Some None) a_message))
          (field_value ''summary'' (Some None) a_summary))
          (field_value ''metadata'' (Some None) a_metadata))
          (field_value ''dist'' (Some None) a_dist))"

section \<open>Serialisation and equality\<close>

text \<open>
  \<^verbatim>\<open>BaseModel.dict()\<close> returns the fields in the order of declaration, a nested
  model replaced by its own \<^verbatim>\<open>dict()\<close>, the elements of a list and the values of a
  dictionary treated the same way.  The universe holds no model, so a metadata
  dictionary is returned as it is.
\<close>

definition Summary_dict :: "Summary \<Rightarrow> pydict" where
  "Summary_dict s =
     [(''uuid'', PStr (Summary.uuid s)),
      (''created_at'', PStr (Summary.created_at s)),
      (''content'', PStr (Summary.content s)),
      (''recent_message_uuid'', PStr (recent_message_uuid s)),
      (''token_count'', Summary.token_count s)]"

definition Message_dict :: "Message \<Rightarrow> pydict" where
  "Message_dict m =
     [(''role'', PStr (role m)),
      (''content'', PStr (Message.content m)),
      (''uuid'', opt PStr (Message.uuid m)),
      (''created_at'', opt PStr (Message.created_at m)),
      (''token_count'', opt PInt (Message.token_count m)),
      (''metadata'', opt PDict (Message.metadata m))]"

definition Memory_dict :: "Memory \<Rightarrow> pydict" where
  "Memory_dict m =
     [(''messages'', PList (map (\<lambda>x. PDict (Message_dict x)) (messages m))),
      (''metadata'', opt PDict (Memory.metadata m)),
      (''summary'', opt (\<lambda>s. PDict (Summary_dict s)) (Memory.summary m)),
      (''uuid'', opt PStr (Memory.uuid m)),
      (''created_at'', opt PStr (Memory.created_at m)),
      (''token_count'', opt PInt (Memory.token_count m))]"

text \<open>
  The three \<^verbatim>\<open>to_dict\<close> methods of the module, each \<^verbatim>\<open>return self.dict()\<close>.
\<close>

definition Summary_to_dict :: "Summary \<Rightarrow> pydict" where
  "Summary_to_dict s = Summary_dict s"

definition Message_to_dict :: "Message \<Rightarrow> pydict" where
  "Message_to_dict m = Message_dict m"

definition Memory_to_dict :: "Memory \<Rightarrow> pydict" where
  "Memory_to_dict m = Memory_dict m"

text \<open>
  An instance of any of the six classes, and the call \<^verbatim>\<open>x.to_dict()\<close> on it.
  \<^verbatim>\<open>Session\<close>, \<^verbatim>\<open>MemorySearchPayload\<close> and \<^verbatim>\<open>MemorySearchResult\<close> define no
  such method and \<^verbatim>\<open>BaseModel\<close> has none, so the attribute lookup raises.
\<close>

datatype model_instance =
    Session_obj Session
  | Summary_obj Summary
  | Message_obj Message
  | Memory_obj Memory
  | MemorySearchPayload_obj MemorySearchPayload
  | MemorySearchResult_obj MemorySearchResult

fun to_dict :: "model_instance \<Rightarrow> error + pydict" where
  "to_dict (Session_obj x) = Inl (AttributeError ''Session'' ''to_dict'')"
| "to_dict (Summary_obj x) = Inr (Summary_to_dict x)"
| "to_dict (Message_obj x) = Inr (Message_to_dict x)"
| "to_dict (Memory_obj x) = Inr (Memory_to_dict x)"
| "to_dict (MemorySearchPayload_obj x) = Inl (AttributeError ''MemorySearchPayload'' ''to_dict'')"
| "to_dict (MemorySearchResult_obj x) = Inl (AttributeError ''MemorySearchResult'' ''to_dict'')"

text \<open>
  \<^verbatim>\<open>BaseModel.__eq__\<close> compares two models by their \<^verbatim>\<open>dict()\<close>:
  \<^verbatim>\<open>self.dict() == other.dict()\<close>.
\<close>

definition Message_eq :: "Message \<Rightarrow> Message \<Rightarrow> bool" where
  "Message_eq a b = py_eq (PDict (Message_dict a)) (PDict (Message_dict b))"

section \<open>Auxiliary facts\<close>

lemmas new_defs = field_value_def ap_def model_result_def

lemmas dict_defs =
  Summary_to_dict_def Message_to_dict_def Memory_to_dict_def
  Summary_dict_def Message_dict_def Memory_dict_def opt_def

lemma py_eq_refl: "wf_pyval v \<Longrightarrow> py_eq v v"
proof (induction v)
  case (PList xs)
  then show ?case by (auto simp: list_all2_same list_all_iff)
next
  case (PDict a)
  then show ?case by (fastforce simp: list_all_iff)
qed simp_all

lemma Message_eq_fields:
  "Message_eq a b \<longleftrightarrow>
     (role a = role b \<and> Message.content a = Message.content b \<and>
      Message.uuid a = Message.uuid b \<and> Message.created_at a = Message.created_at b \<and>
      Message.token_count a = Message.token_count b \<and>
      py_eq (opt PDict (Message.metadata a)) (opt PDict (Message.metadata b)))"
  by (auto simp add: Message_eq_def Message_dict_def opt_def split: option.splits)

lemma Message_eq_refl: "wf_pyval (opt PDict (Message.metadata a)) \<Longrightarrow> Message_eq a a"
  by (simp add: Message_eq_fields py_eq_refl)

lemma Message_dict_inj: "Message_dict x = Message_dict y \<Longrightarrow> x = y"
  by (cases x, cases y) (auto simp: Message_dict_def opt_def split: option.splits)

lemma Message_to_dict_inj: "inj (\<lambda>x. PDict (Message_to_dict x))"
  by (rule injI) (simp add: Message_to_dict_def Message_dict_inj)

lemma Summary_dict_inj: "Summary_dict x = Summary_dict y \<Longrightarrow> x = y"
  by (cases x, cases y) (simp add: Summary_dict_def)

lemma Summary_to_dict_inj: "inj (\<lambda>s. PDict (Summary_to_dict s))"
  by (rule injI) (simp add: Summary_to_dict_def Summary_dict_inj)

section \<open>Construction of a Message\<close>

text \<open>
  C1.  The claim: constructing a Message without \<^verbatim>\<open>role\<close> or without \<^verbatim>\<open>content\<close>
  fails with a validation error.  The code gives both fields a default, the string
  passed first to \<^verbatim>\<open>Field\<close>, so construction succeeds and the omitted field holds
  the text \<^verbatim>\<open>A role is required\<close>, respectively \<^verbatim>\<open>Content is required\<close>.
\<close>

theorem Message_new_omitted_required:
  "Message_new None (Some ''hi'') None None None None =
     Inr \<lparr>role = ''A role is required'', Message.content = ''hi'', Message.uuid = None,
          Message.created_at = None, Message.token_count = None, Message.metadata = None\<rparr>
   \<and> Message_new (Some ''user'') None None None None None =
     Inr \<lparr>role = ''user'', Message.content = ''Content is required'', Message.uuid = None,
          Message.created_at = None, Message.token_count = None, Message.metadata = None\<rparr>
   \<and> Message_new None None None None None None =
     Inr \<lparr>role = ''A role is required'', Message.content = ''Content is required'',
          Message.uuid = None, Message.created_at = None, Message.token_count = None,
          Message.metadata = None\<rparr>"
  by (simp add: Message_new_def new_defs)

text \<open>
  C3.  \<^verbatim>\<open>Message(role="user", content="hi")\<close> is constructed, and its
  \<^verbatim>\<open>to_dict()\<close> is the dictionary of exactly the six declared fields, the four
  optional ones \<^verbatim>\<open>None\<close>.
\<close>

theorem Message_user_hi_to_dict:
  "\<exists>m. Message_new (Some ''user'') (Some ''hi'') None None None None = Inr m \<and>
       to_dict (Message_obj m) =
         Inr [(''role'', PStr ''user''), (''content'', PStr ''hi''), (''uuid'', PNone),
              (''created_at'', PNone), (''token_count'', PNone), (''metadata'', PNone)]"
  by (simp add: Message_new_def new_defs dict_defs)

section \<open>Serialisation round trip\<close>



section \<open>Required fields and defaults\<close>

text \<open>
  C4.  Whatever else is given, constructing a Session without \<^verbatim>\<open>session_id\<close> raises
  a \<^verbatim>\<open>ValidationError\<close> whose only entry names \<^verbatim>\<open>session_id\<close> with the message
  \<^verbatim>\<open>field required\<close>.  With \<^verbatim>\<open>session_id\<close> alone construction succeeds and every
  other field is \<^verbatim>\<open>None\<close>.
\<close>

theorem Session_requires_session_id:
  "Session_new a_uuid a_id a_created_at a_updated_at a_deleted_at None a_user_id a_metadata =
     Inl (ValidationError [(''session_id'', ''field required'')])
   \<and> Session_new None None None None None (Some sid) None None =
     Inr \<lparr>Session.uuid = None, id' = None, Session.created_at = None, updated_at = None,
          deleted_at = None, session_id = sid, user_id = None, Session.metadata = None\<rparr>"
  apply (rule conjI)
  subgoal
    by (cases a_uuid; cases a_id; cases a_created_at; cases a_updated_at; cases a_deleted_at;
        cases a_user_id; cases a_metadata) (simp_all add: Session_new_def new_defs)
  subgoal by (simp add: Session_new_def new_defs)
  done

text \<open>
  C5.  \<^verbatim>\<open>MemorySearchPayload(text="hello")\<close> has \<^verbatim>\<open>search_scope == "messages"\<close>,
  \<^verbatim>\<open>search_type == "similarity"\<close>, \<^verbatim>\<open>metadata == None\<close> and \<^verbatim>\<open>mmr_lambda == None\<close>.
\<close>

theorem MemorySearchPayload_text_only_defaults:
  "\<exists>p. MemorySearchPayload_new (Some (Some ''hello'')) None None None None = Inr p \<and>
       text_field p = Some ''hello'' \<and>
       search_scope p = Some ''messages'' \<and> search_type p = Some ''similarity'' \<and>
       MemorySearchPayload.metadata p = None \<and> mmr_lambda p = None"
  by (simp add: MemorySearchPayload_new_def new_defs)

text \<open>
  C6.  A Memory constructed with \<^verbatim>\<open>messages=[]\<close>, or without \<^verbatim>\<open>messages\<close>, has
  \<^verbatim>\<open>messages == []\<close>, and its \<^verbatim>\<open>to_dict()\<close> binds \<^verbatim>\<open>"messages"\<close> to the empty list,
  not to \<^verbatim>\<open>None\<close>, whatever the other arguments are.
\<close>

theorem Memory_empty_messages:
  "(\<exists>m. Memory_new (Some []) a_metadata a_summary a_uuid a_created_at a_count = Inr m \<and>
        messages m = [] \<and>
        (\<exists>d. to_dict (Memory_obj m) = Inr d \<and> map_of d ''messages'' = Some (PList [])))
   \<and> (\<exists>m. Memory_new None b_metadata b_summary b_uuid b_created_at b_count = Inr m \<and>
        messages m = [] \<and>
        (\<exists>d. to_dict (Memory_obj m) = Inr d \<and> map_of d ''messages'' = Some (PList [])))"
  apply (rule conjI)
  subgoal
    by (cases a_metadata; cases a_summary; cases a_uuid; cases a_created_at; cases a_count)
       (simp_all add: Memory_new_def new_defs Memory_to_dict_def Memory_dict_def)
  subgoal
    by (cases b_metadata; cases b_summary; cases b_uuid; cases b_created_at; cases b_count)
       (simp_all add: Memory_new_def new_defs Memory_to_dict_def Memory_dict_def)
  done

text \<open>
  C8.  For every string \<open>s\<close>, in the enumeration or not, a MemorySearchPayload with
  \<^verbatim>\<open>search_scope=s\<close> is constructed and holds \<open>s\<close>; the same for \<^verbatim>\<open>search_type\<close>.
  Construction does not compare the string with the legal values.
\<close>

theorem MemorySearchPayload_no_enum_validation:
  "(\<exists>p. MemorySearchPayload_new a_text a_metadata (Some (Some s)) a_type a_lambda = Inr p \<and>
        search_scope p = Some s)
   \<and> (\<exists>p. MemorySearchPayload_new b_text b_metadata b_scope (Some (Some s')) b_lambda = Inr p \<and>
        search_type p = Some s')"
  apply (rule conjI)
  subgoal
    by (cases a_text; cases a_metadata; cases a_type; cases a_lambda)
       (simp_all add: MemorySearchPayload_new_def new_defs)
  subgoal
    by (cases b_text; cases b_metadata; cases b_scope; cases b_lambda)
       (simp_all add: MemorySearchPayload_new_def new_defs)
  done

text \<open>
  C10.  \<^verbatim>\<open>Summary()\<close> with no argument is constructed, and each field holds its
  placeholder string; \<^verbatim>\<open>token_count\<close>, declared \<^verbatim>\<open>int\<close>, holds the string
  \<^verbatim>\<open>A token_count is required\<close>.
\<close>

theorem Summary_no_arguments_placeholders:
  "Summary_new None None None None None =
     Inr \<lparr>Summary.uuid = ''A uuid is required'', Summary.created_at = ''A created_at is required'',
          Summary.content = ''Content is required'',
          recent_message_uuid = ''A recent_message_uuid is required'',
          Summary.token_count = PStr ''A token_count is required''\<rparr>"
  by (simp add: Summary_new_def new_defs)

section \<open>Nested records of a Memory\<close>

text \<open>
  C9.  A Memory constructed from the list \<open>msgs\<close> holds \<open>msgs\<close>, and its \<^verbatim>\<open>to_dict()\<close>
  binds \<^verbatim>\<open>"messages"\<close> to a list with one entry per message, in the same order, the
  entry of a message being the dictionary of its six fields; it binds \<^verbatim>\<open>"summary"\<close>
  to the dictionary of the five fields of the summary when there is one, and to
  \<^verbatim>\<open>None\<close> otherwise.  These dictionaries are the ones \<^verbatim>\<open>to_dict()\<close> gives on the
  Message and on the Summary themselves, and distinct Messages, and distinct
  Summaries, have distinct dictionaries, so the entries determine the records.
\<close>

theorem Memory_to_dict_messages_in_order:
  "\<exists>m. Memory_new (Some msgs) a_metadata a_summary a_uuid a_created_at a_count = Inr m \<and>
       messages m = msgs \<and>
       (\<exists>d. to_dict (Memory_obj m) = Inr d \<and>
          map_of d ''messages'' =
            Some (PList (map (\<lambda>x. PDict
                      [(''role'', PStr (role x)),
                       (''content'', PStr (Message.content x)),
                       (''uuid'', (case Message.uuid x of None \<Rightarrow> PNone | Some v \<Rightarrow> PStr v)),
                       (''created_at'',
                          (case Message.created_at x of None \<Rightarrow> PNone | Some v \<Rightarrow> PStr v)),
                       (''token_count'',
                          (case Message.token_count x of None \<Rightarrow> PNone | Some v \<Rightarrow> PInt v)),
                       (''metadata'',
                          (case Message.metadata x of None \<Rightarrow> PNone | Some v \<Rightarrow> PDict v))])
                    msgs)) \<and>
          map_of d ''summary'' =
            Some (case a_summary of
                    Some (Some s) \<Rightarrow> PDict
                      [(''uuid'', PStr (Summary.uuid s)),
                       (''created_at'', PStr (Summary.created_at s)),
                       (''content'', PStr (Summary.content s)),
                       (''recent_message_uuid'', PStr (recent_message_uuid s)),
                       (''token_count'', Summary.token_count s)]
                  | _ \<Rightarrow> PNone)) \<and>
       (\<forall>x. to_dict (Message_obj x) = Inr
                      [(''role'', PStr (role x)),
                       (''content'', PStr (Message.content x)),
                       (''uuid'', (case Message.uuid x of None \<Rightarrow> PNone | Some v \<Rightarrow> PStr v)),
                       (''created_at'',
                          (case Message.created_at x of None \<Rightarrow> PNone | Some v \<Rightarrow> PStr v)),
                       (''token_count'',
                          (case Message.token_count x of None \<Rightarrow> PNone | Some v \<Rightarrow> PInt v)),
                       (''metadata'',
                          (case Message.metadata x of None \<Rightarrow> PNone | Some v \<Rightarrow> PDict v))]) \<and>
       (\<forall>s. to_dict (Summary_obj s) = Inr
                      [(''uuid'', PStr (Summary.uuid s)),
                       (''created_at'', PStr (Summary.created_at s)),
                       (''content'', PStr (Summary.content s)),
                       (''recent_message_uuid'', PStr (recent_message_uuid s)),
                       (''token_count'', Summary.token_count s)]) \<and>
       inj (\<lambda>x. PDict (Message_to_dict x)) \<and> inj (\<lambda>s. PDict (Summary_to_dict s))"
proof -
  have "\<exists>m. Memory_new (Some msgs) a_metadata a_summary a_uuid a_created_at a_count = Inr m \<and>
       messages m = msgs \<and>
       (\<exists>d. to_dict (Memory_obj m) = Inr d \<and>
          map_of d ''messages'' =
            Some (PList (map (\<lambda>x. PDict
                      [(''role'', PStr (role x)),
                       (''content'', PStr (Message.content x)),
                       (''uuid'', (case Message.uuid x of None \<Rightarrow> PNone | Some v \<Rightarrow> PStr v)),
                       (''created_at'',
                          (case Message.created_at x of None \<Rightarrow> PNone | Some v \<Rightarrow> PStr v)),
                       (''token_count'',
                          (case Message.token_count x of None \<Rightarrow> PNone | Some v \<Rightarrow> PInt v)),
                       (''metadata'',
                          (case Message.metadata x of None \<Rightarrow> PNone | Some v \<Rightarrow> PDict v))])
                    msgs)) \<and>
          map_of d ''summary'' =
            Some (case a_summary of
                    Some (Some s) \<Rightarrow> PDict
                      [(''uuid'', PStr (Summary.uuid s)),
                       (''created_at'', PStr (Summary.created_at s)),
                       (''content'', PStr (Summary.content s)),
                       (''recent_message_uuid'', PStr (recent_message_uuid s)),
                       (''token_count'', Summary.token_count s)]
                  | _ \<Rightarrow> PNone))"
    by (cases a_metadata; cases a_summary; cases a_uuid; cases a_created_at; cases a_count)
       (simp_all add: Memory_new_def new_defs dict_defs split: option.splits)
  moreover have "\<forall>x. to_dict (Message_obj x) = Inr
                      [(''role'', PStr (role x)),
                       (''content'', PStr (Message.content x)),
                       (''uuid'', (case Message.uuid x of None \<Rightarrow> PNone | Some v \<Rightarrow> PStr v)),
                       (''created_at'',
                          (case Message.created_at x of None \<Rightarrow> PNone | Some v \<Rightarrow> PStr v)),
                       (''token_count'',
                          (case Message.token_count x of None \<Rightarrow> PNone | Some v \<Rightarrow> PInt v)),
                       (''metadata'',
                          (case Message.metadata x of None \<Rightarrow> PNone | Some v \<Rightarrow> PDict v))]"
    by (simp add: dict_defs)
  moreover have "\<forall>s. to_dict (Summary_obj s) = Inr
                      [(''uuid'', PStr (Summary.uuid s)),
                       (''created_at'', PStr (Summary.created_at s)),
                       (''content'', PStr (Summary.content s)),
                       (''recent_message_uuid'', PStr (recent_message_uuid s)),
                       (''token_count'', Summary.token_count s)]"
    by (simp add: dict_defs)
  ultimately show ?thesis using Message_to_dict_inj Summary_to_dict_inj by blast
qed

section \<open>Equality of Messages\<close>

text \<open>
  C7.  Two Messages are equal exactly when their six fields are pairwise equal, the
  metadata compared as Python compares dictionaries.  Two Messages built from the
  same arguments are equal (no dictionary of the metadata having a repeated key, as
  in any Python dictionary), and two built from arguments that differ in the content
  are not.
\<close>

theorem Message_equality_structural:
  "(Message_eq a b \<longleftrightarrow>
      (role a = role b \<and> Message.content a = Message.content b \<and>
       Message.uuid a = Message.uuid b \<and> Message.created_at a = Message.created_at b \<and>
       Message.token_count a = Message.token_count b \<and>
       py_eq (opt PDict (Message.metadata a)) (opt PDict (Message.metadata b))))
   \<and> (Message_new r c u t n md = Inr x \<longrightarrow> Message_new r c u t n md = Inr y \<longrightarrow>
        wf_pyval (opt PDict (Message.metadata x)) \<longrightarrow> Message_eq x y)
   \<and> (Message_new r' (Some c1) u' t' n' md' = Inr p \<longrightarrow>
        Message_new r' (Some c2) u' t' n' md' = Inr q \<longrightarrow> c1 \<noteq> c2 \<longrightarrow> \<not> Message_eq p q)"
proof (intro conjI impI)
  show "Message_eq a b \<longleftrightarrow>
      (role a = role b \<and> Message.content a = Message.content b \<and>
       Message.uuid a = Message.uuid b \<and> Message.created_at a = Message.created_at b \<and>
       Message.token_count a = Message.token_count b \<and>
       py_eq (opt PDict (Message.metadata a)) (opt PDict (Message.metadata b)))"
    by (rule Message_eq_fields)
next
  assume "Message_new r c u t n md = Inr x" and "Message_new r c u t n md = Inr y"
    and "wf_pyval (opt PDict (Message.metadata x))"
  then show "Message_eq x y" using Message_eq_refl [of x] by simp
next
  assume p: "Message_new r' (Some c1) u' t' n' md' = Inr p"
    and q: "Message_new r' (Some c2) u' t' n' md' = Inr q" and ne: "c1 \<noteq> c2"
  have "Message.content p = c1"
    using p
    by (cases r'; cases u'; cases t'; cases n'; cases md')
       (auto simp add: Message_new_def new_defs)
  moreover have "Message.content q = c2"
    using q
    by (cases r'; cases u'; cases t'; cases n'; cases md')
       (auto simp add: Message_new_def new_defs)
  ultimately show "\<not> Message_eq p q" using ne by (simp add: Message_eq_fields)
qed

theorem Message_equality_structural_witness:
  "Message_new (Some ''user'') (Some ''hi'') None None (Some (Some 2))
       (Some (Some [(''k'', PList [PInt 1, PDict [(''a'', PNone)]])])) =
     Inr \<lparr>role = ''user'', Message.content = ''hi'', Message.uuid = None,
          Message.created_at = None, Message.token_count = Some 2,
          Message.metadata = Some [(''k'', PList [PInt 1, PDict [(''a'', PNone)]])]\<rparr>
   \<and> wf_pyval (PDict [(''k'', PList [PInt 1, PDict [(''a'', PNone)]])])
   \<and> Message_eq
       \<lparr>role = ''user'', Message.content = ''hi'', Message.uuid = None,
        Message.created_at = None, Message.token_count = Some 2,
        Message.metadata = Some [(''k'', PList [PInt 1, PDict [(''a'', PNone)]])]\<rparr>
       \<lparr>role = ''user'', Message.content = ''hi'', Message.uuid = None,
        Message.created_at = None, Message.token_count = Some 2,
        Message.metadata = Some [(''k'', PList [PInt 1, PDict [(''a'', PNone)]])]\<rparr>
   \<and> Message_new (Some ''user'') (Some ''ho'') None None None None =
     Inr \<lparr>role = ''user'', Message.content = ''ho'', Message.uuid = None,
          Message.created_at = None, Message.token_count = None, Message.metadata = None\<rparr>
   \<and> Message_new (Some ''user'') (Some ''hi'') None None None None =
     Inr \<lparr>role = ''user'', Message.content = ''hi'', Message.uuid = None,
          Message.created_at = None, Message.token_count = None, Message.metadata = None\<rparr>
   \<and> \<not> Message_eq
       \<lparr>role = ''user'', Message.content = ''ho'', Message.uuid = None,
        Message.created_at = None, Message.token_count = None, Message.metadata = None\<rparr>
       \<lparr>role = ''user'', Message.content = ''hi'', Message.uuid = None,
        Message.created_at = None, Message.token_count = None, Message.metadata = None\<rparr>"
proof -
  let ?md = "[(''k'', PList [PInt 1, PDict [(''a'', PNone)]])]"
  let ?x = "\<lparr>role = ''user'', Message.content = ''hi'', Message.uuid = None,
        Message.created_at = None, Message.token_count = Some 2, Message.metadata = Some ?md\<rparr>"
  let ?p = "\<lparr>role = ''user'', Message.content = ''ho'', Message.uuid = None,
        Message.created_at = None, Message.token_count = None, Message.metadata = None\<rparr>"
  let ?q = "\<lparr>role = ''user'', Message.content = ''hi'', Message.uuid = None,
        Message.created_at = None, Message.token_count = None, Message.metadata = None\<rparr>"
  have x: "Message_new (Some ''user'') (Some ''hi'') None None (Some (Some 2)) (Some (Some ?md)) = Inr ?x"
    by (simp add: Message_new_def new_defs)
  have wf: "wf_pyval (PDict ?md)" by simp
  have wf': "wf_pyval (opt PDict (Message.metadata ?x))" using wf by (simp add: opt_def)
  have p: "Message_new (Some ''user'') (Some ''ho'') None None None None = Inr ?p"
    by (simp add: Message_new_def new_defs)
  have q: "Message_new (Some ''user'') (Some ''hi'') None None None None = Inr ?q"
    by (simp add: Message_new_def new_defs)
  have ne: "''ho'' \<noteq> ''hi''" by simp
  note inst = Message_equality_structural
    [of ?x ?x "Some ''user''" "Some ''hi''" None None "Some (Some 2)" "Some (Some ?md)" ?x ?x
        "Some ''user''" "''ho''" None None None None ?p "''hi''" ?q]
  from inst x wf' have "Message_eq ?x ?x" by blast
  moreover from inst p q ne have "\<not> Message_eq ?p ?q" by blast
  ultimately show ?thesis using x wf p q by blast
qed

end
